theory Spec2Isabelle
  imports Main "HOL-Library.Word"
begin

unbundle bit_operations_syntax

section \<open>Machine types, system constants, faults\<close>

text \<open>
  The plugin \<^verbatim>\<open>bluez/audio/ste-pcm_bluetooth.c\<close> is built for a 32-bit ARM target:
  \<^verbatim>\<open>unsigned int\<close>, \<^verbatim>\<open>unsigned long\<close> and \<^verbatim>\<open>size_t\<close> are 32 bits wide.
  Unsigned counters are natural numbers and every operation that can wrap is written
  with \<open>u32\<close> (addition, multiplication) or \<open>usub32\<close> (subtraction).  Fixed-width
  fields that go on the wire are words.
\<close>

type_synonym byte = "8 word"
type_synonym u8 = "8 word"
type_synonym u16 = "16 word"
type_synonym u32 = "32 word"

definition u32 :: "nat \<Rightarrow> nat" where
  "u32 n = n mod 2 ^ 32"

definition usub32 :: "nat \<Rightarrow> nat \<Rightarrow> nat" where
  "usub32 a b = (a + 2 ^ 32 - b mod 2 ^ 32) mod 2 ^ 32"

text \<open>Values of \<^verbatim>\<open><errno.h>\<close> on Linux.\<close>

definition EIO :: int where "EIO = 5"
definition ENOMEM :: int where "ENOMEM = 12"
definition EINVAL :: int where "EINVAL = 22"
definition EPIPE :: int where "EPIPE = 32"

text \<open>
  What C leaves undefined is a value of the model: a write or read through a null
  buffer pointer, an access past the end of a heap block, an integer division by zero.
\<close>

datatype fault = NULL_DEREF | OUT_OF_BOUNDS | DIV_BY_ZERO

section \<open>Data model\<close>

datatype stream_state = STREAM_CLOSED | STREAM_OPENED | STREAM_CONFIGURED | STREAM_STARTED

datatype snd_pcm_stream = SND_PCM_STREAM_PLAYBACK | SND_PCM_STREAM_CAPTURE

datatype snd_pcm_state =
    SND_PCM_STATE_OPEN | SND_PCM_STATE_SETUP | SND_PCM_STATE_PREPARED
  | SND_PCM_STATE_RUNNING | SND_PCM_STATE_XRUN | SND_PCM_STATE_DRAINING
  | SND_PCM_STATE_PAUSED | SND_PCM_STATE_SUSPENDED | SND_PCM_STATE_DISCONNECTED

text \<open>The operation names of the control channel, as they appear in requests.\<close>

datatype bt_name =
    BT_GET_CAPABILITIES | BT_OPEN | BT_SET_CONFIGURATION | BT_NEW_STREAM
  | BT_START_STREAM | BT_STOP_STREAM | BT_CLOSE | BT_CONTROL | BT_DELAY_REPORT

text \<open>
  The constants of \<^verbatim>\<open>ipc.h\<close>.  The header is not among the sources, so the functions
  that use its constants take them as a parameter \<open>k\<close>; \<open>bluez_ipc\<close> below is the
  instance with the values of BlueZ's \<^verbatim>\<open>audio/ipc.h\<close>, used for concrete runs.
\<close>

record ipc_h =
  BT_CAPABILITIES_TRANSPORT_A2DP :: int
  BT_CAPABILITIES_TRANSPORT_SCO :: int
  BT_SBC_SAMPLING_FREQ_16000 :: u8
  BT_SBC_SAMPLING_FREQ_32000 :: u8
  BT_SBC_SAMPLING_FREQ_44100 :: u8
  BT_SBC_SAMPLING_FREQ_48000 :: u8
  BT_A2DP_CHANNEL_MODE_MONO :: u8
  BT_A2DP_CHANNEL_MODE_DUAL_CHANNEL :: u8
  BT_A2DP_CHANNEL_MODE_STEREO :: u8
  BT_A2DP_CHANNEL_MODE_JOINT_STEREO :: u8
  BT_A2DP_BLOCK_LENGTH_4 :: u8
  BT_A2DP_BLOCK_LENGTH_8 :: u8
  BT_A2DP_BLOCK_LENGTH_12 :: u8
  BT_A2DP_BLOCK_LENGTH_16 :: u8
  BT_A2DP_SUBBANDS_4 :: u8
  BT_A2DP_SUBBANDS_8 :: u8
  BT_A2DP_ALLOCATION_SNR :: u8
  BT_A2DP_ALLOCATION_LOUDNESS :: u8

definition bluez_ipc :: ipc_h where
  "bluez_ipc = \<lparr>
     BT_CAPABILITIES_TRANSPORT_A2DP = 0,
     BT_CAPABILITIES_TRANSPORT_SCO = 1,
     BT_SBC_SAMPLING_FREQ_16000 = 8,
     BT_SBC_SAMPLING_FREQ_32000 = 4,
     BT_SBC_SAMPLING_FREQ_44100 = 2,
     BT_SBC_SAMPLING_FREQ_48000 = 1,
     BT_A2DP_CHANNEL_MODE_MONO = 8,
     BT_A2DP_CHANNEL_MODE_DUAL_CHANNEL = 4,
     BT_A2DP_CHANNEL_MODE_STEREO = 2,
     BT_A2DP_CHANNEL_MODE_JOINT_STEREO = 1,
     BT_A2DP_BLOCK_LENGTH_4 = 8,
     BT_A2DP_BLOCK_LENGTH_8 = 4,
     BT_A2DP_BLOCK_LENGTH_12 = 2,
     BT_A2DP_BLOCK_LENGTH_16 = 1,
     BT_A2DP_SUBBANDS_4 = 2,
     BT_A2DP_SUBBANDS_8 = 1,
     BT_A2DP_ALLOCATION_SNR = 2,
     BT_A2DP_ALLOCATION_LOUDNESS = 1 \<rparr>"

text \<open>
  \<^verbatim>\<open>sbc_capabilities_t\<close> (declared in \<^verbatim>\<open>ipc.h\<close>): the fields the plugin reads and
  writes, each a \<^verbatim>\<open>uint8_t\<close>.
\<close>

record sbc_capabilities_t =
  seid :: u8
  channel_mode :: u8
  frequency :: u8
  allocation_method :: u8
  subbands :: u8
  block_length :: u8
  min_bitpool :: u8
  max_bitpool :: u8

text \<open>\<^verbatim>\<open>struct bluetooth_alsa_config\<close>; the \<^verbatim>\<open>has_*\<close> flags are booleans.\<close>

record bluetooth_alsa_config =
  device :: string
  has_device :: bool
  transport :: u8
  has_transport :: bool
  rate :: u16
  has_rate :: bool
  channel_mode :: u8
  has_channel_mode :: bool
  allocation_method :: u8
  has_allocation_method :: bool
  subbands :: u8
  has_subbands :: bool
  block_length :: u8
  has_block_length :: bool
  bitpool :: u8
  has_bitpool :: bool
  autoconnect :: bool

text \<open>
  \<^verbatim>\<open>struct bluetooth_a2dp\<close>.  The codec state \<^verbatim>\<open>sbc_t\<close> belongs to the external
  encoder and is a type parameter.  A buffer pointer is \<open>None\<close> when null and otherwise
  holds the bytes of the heap block it points to.
\<close>

record 's bluetooth_a2dp =
  sbc_capabilities :: sbc_capabilities_t
  sbc :: 's
  sbc_initialized :: bool
  codesize :: nat
  samples :: int
  buffer :: "byte list option"
  count :: nat
  nsamples :: int
  seq_num :: u16
  frame_count :: int

text \<open>The fields of ALSA's \<^verbatim>\<open>snd_pcm_ioplug_t\<close> that the plugin uses.\<close>

record snd_pcm_ioplug =
  stream :: snd_pcm_stream
  state :: snd_pcm_state
  hw_ptr :: nat
  appl_ptr :: nat
  rate :: nat
  period_size :: nat
  buffer_size :: nat
  nonblock :: bool

text \<open>
  \<^verbatim>\<open>struct bluetooth_data\<close>.  The last four fields are not in the struct: they record
  what the Session has done on its descriptors, so that claims about traffic can be
  stated: the requests written to \<^verbatim>\<open>server.fd\<close>, the buffers handed to \<^verbatim>\<open>send\<close> on
  \<^verbatim>\<open>stream.fd\<close> by the A2DP transmit routine together with the number of transmit
  attempts, and the number of one-byte \<^verbatim>\<open>write\<close> calls made on \<^verbatim>\<open>pipefd[1]\<close>
  (the notifications to whoever polls the Session).
\<close>

record 's bluetooth_data =
  io :: snd_pcm_ioplug
  alsa_config :: bluetooth_alsa_config
  hw_ptr :: nat
  transport :: int
  link_mtu :: nat
  stream_fd :: int
  buffer :: "byte list option"
  count :: nat
  a2dp :: "'s bluetooth_a2dp"
  hw_thread :: bool
  stopped :: int
  reset :: int
  a2dp_stream_state :: stream_state
  sink_delay :: int
  server_sent :: "bt_name list"
  wire :: "byte list list"
  tx_attempts :: nat
  pipe_written :: nat

section \<open>Start, stop, pointer\<close>

definition bluetooth_playback_stop :: "'s bluetooth_data \<Rightarrow> int \<times> 's bluetooth_data" where
  "bluetooth_playback_stop d = (0, d\<lparr>stopped := 1\<rparr>)"


text \<open>\<^verbatim>\<open>audioservice_send\<close>: the request goes on the control channel; \<open>r\<close> is the result.\<close>

definition audioservice_send :: "int \<Rightarrow> bt_name \<Rightarrow> 's bluetooth_data \<Rightarrow> int \<times> 's bluetooth_data" where
  "audioservice_send r name d = (r, d\<lparr>server_sent := server_sent d @ [name]\<rparr>)"

section \<open>Prepare\<close>




section \<open>Packetization\<close>

text \<open>
  Modelled from the spec: \<^verbatim>\<open>struct rtp_header\<close> and \<^verbatim>\<open>struct rtp_payload\<close> are declared
  in \<^verbatim>\<open>rtp.h\<close>, which is not among the sources.  The layout is the one the spec
  describes: a fixed header with protocol version and payload type (two bytes), a 16-bit
  big-endian sequence number, a 32-bit big-endian sample timestamp and a 32-bit source
  identifier, twelve bytes in all, followed by a one-byte sub-header that carries the
  count of codec frames.  The spec does not give the width of the frame-count bit-field,
  so it is the parameter \<open>w\<close> (BlueZ's \<^verbatim>\<open>rtp.h\<close> declares \<^verbatim>\<open>unsigned frame_count:4\<close>,
  the low four bits of the byte).
\<close>

definition sizeof_rtp_header :: nat where "sizeof_rtp_header = 12"
definition sizeof_rtp_payload :: nat where "sizeof_rtp_payload = 1"

text \<open>\<^verbatim>\<open>htons\<close> and \<^verbatim>\<open>htonl\<close>: the bytes of the field in memory, most significant first.\<close>

definition htons :: "u16 \<Rightarrow> byte list" where
  "htons x = [ucast (drop_bit 8 x), ucast x]"

definition htonl :: "u32 \<Rightarrow> byte list" where
  "htonl x = [ucast (drop_bit 24 x), ucast (drop_bit 16 x), ucast (drop_bit 8 x), ucast x]"

text \<open>
  The thirteen bytes \<^verbatim>\<open>avdtp_write\<close> leaves at the start of the wire buffer: the
  \<^verbatim>\<open>memset\<close> to zero, then \<^verbatim>\<open>frame_count\<close>, \<^verbatim>\<open>v = 2\<close>, \<^verbatim>\<open>pt = 1\<close>,
  \<^verbatim>\<open>htons(seq_num)\<close>, \<^verbatim>\<open>htonl(nsamples)\<close> and \<^verbatim>\<open>htonl(1)\<close>.  The conversion of
  the \<^verbatim>\<open>int\<close> \<^verbatim>\<open>nsamples\<close> to \<^verbatim>\<open>uint32_t\<close> and of the \<^verbatim>\<open>int\<close> \<^verbatim>\<open>frame_count\<close> to
  the bit-field keeps the low bits.
\<close>

definition rtp_fill :: "nat \<Rightarrow> 's bluetooth_a2dp \<Rightarrow> byte list" where
  "rtp_fill w a =
     [0x80, 0x01] @ htons (seq_num a) @ htonl (word_of_int (nsamples a)) @ htonl 1
     @ [take_bit w (word_of_int (frame_count a))]"

text \<open>The outcome of the \<^verbatim>\<open>poll\<close> and of the \<^verbatim>\<open>send\<close> of one transmit attempt.\<close>

record tx_outcome =
  retpoll :: int
  pollout :: bool
  send_ret :: int
  tx_errno :: int

text \<open>The unconditional tail of \<^verbatim>\<open>avdtp_write\<close>: \<^verbatim>\<open>Reset buffer of data to send\<close>.\<close>

definition avdtp_reset :: "'s bluetooth_data \<Rightarrow> 's bluetooth_data" where
  "avdtp_reset d =
     d\<lparr>a2dp := (a2dp d)\<lparr>bluetooth_a2dp.count := sizeof_rtp_header + sizeof_rtp_payload,
                          frame_count := 0,
                          samples := 0,
                          seq_num := seq_num (a2dp d) + 1\<rparr>,
       tx_attempts := tx_attempts d + 1\<rparr>"

text \<open>
  \<^verbatim>\<open>avdtp_write\<close>.  \<open>txo n\<close> is the outcome of the \<open>n\<close>-th transmit attempt of the
  Session.  A buffer handed to \<^verbatim>\<open>send\<close> is appended to \<open>wire\<close>.
\<close>

definition avdtp_write ::
  "nat \<Rightarrow> (nat \<Rightarrow> tx_outcome) \<Rightarrow> 's bluetooth_data \<Rightarrow> fault + (int \<times> 's bluetooth_data)" where
  "avdtp_write w txo d =
     (case bluetooth_a2dp.buffer (a2dp d) of
        None \<Rightarrow> Inl NULL_DEREF
      | Some buf \<Rightarrow>
          if length buf < sizeof_rtp_header + sizeof_rtp_payload then Inl OUT_OF_BOUNDS
          else
            let buf' = rtp_fill w (a2dp d) @ drop (sizeof_rtp_header + sizeof_rtp_payload) buf;
                d1 = d\<lparr>a2dp := (a2dp d)\<lparr>bluetooth_a2dp.buffer := Some buf'\<rparr>\<rparr>;
                out = txo (tx_attempts d)
            in if pollout out then
                 (if length buf' < bluetooth_a2dp.count (a2dp d1) then Inl OUT_OF_BOUNDS
                  else
                    let d2 = d1\<lparr>wire := wire d1 @ [take (bluetooth_a2dp.count (a2dp d1)) buf']\<rparr>;
                        ret = (if send_ret out < 0 then - tx_errno out else send_ret out)
                    in Inr (ret, avdtp_reset d2))
               else if retpoll out < 0 then Inr (- tx_errno out, avdtp_reset d1)
               else Inr (0, avdtp_reset d1))"

text \<open>
  Reading a header back, in the words of the spec: the sequence number is the 16-bit
  big-endian field at offset 2, the timestamp the 32-bit big-endian field at offset 4,
  the frame count the \<open>w\<close>-bit field of the sub-header byte at offset 12.
\<close>

definition ntohs :: "byte list \<Rightarrow> u16" where
  "ntohs bs = push_bit 8 (ucast (bs ! 0)) OR ucast (bs ! 1)"

definition ntohl :: "byte list \<Rightarrow> u32" where
  "ntohl bs = push_bit 24 (ucast (bs ! 0)) OR push_bit 16 (ucast (bs ! 1))
              OR push_bit 8 (ucast (bs ! 2)) OR ucast (bs ! 3)"

definition rtp_parse :: "nat \<Rightarrow> byte list \<Rightarrow> (u16 \<times> u32 \<times> byte) option" where
  "rtp_parse w pkt =
     (if length pkt < sizeof_rtp_header + sizeof_rtp_payload then None
      else Some (ntohs (take 2 (drop 2 pkt)), ntohl (take 4 (drop 4 pkt)),
                 take_bit w (pkt ! 12)))"

section \<open>Low-latency playback\<close>

text \<open>
  The application's sample memory is a function from byte offsets (relative to
  \<^verbatim>\<open>areas->addr\<close>) to bytes; \<open>areas_offset\<close> is the offset
  \<^verbatim>\<open>(areas->first + areas->step * offset) / 8\<close> of the first sample;
  \<open>memcpy_to\<close> is \<^verbatim>\<open>memcpy(dst + off, src, n)\<close> into a heap block.
\<close>

definition areas_offset :: "nat \<Rightarrow> nat \<Rightarrow> nat \<Rightarrow> nat" where
  "areas_offset first step offset = u32 (first + u32 (step * offset)) div 8"

definition mem_bytes :: "(nat \<Rightarrow> byte) \<Rightarrow> nat \<Rightarrow> nat \<Rightarrow> byte list" where
  "mem_bytes mem p n = map mem [p ..< p + n]"

definition memcpy_to :: "byte list option \<Rightarrow> nat \<Rightarrow> byte list \<Rightarrow> fault + byte list" where
  "memcpy_to dst off src =
     (case dst of
        None \<Rightarrow> Inl NULL_DEREF
      | Some buf \<Rightarrow>
          if length buf < off + length src then Inl OUT_OF_BOUNDS
          else Inr (take off buf @ src @ drop (off + length src) buf))"

text \<open>
  \<^verbatim>\<open>bluetooth_hsp_write\<close>; \<open>rsend\<close> and \<open>errno\<close> are the outcome of the \<^verbatim>\<open>send\<close>,
  \<open>step\<close>, \<open>first\<close> the fields of \<^verbatim>\<open>areas\<close>, \<open>sz\<close> the argument \<^verbatim>\<open>size\<close>.
\<close>

definition bluetooth_hsp_write ::
  "int \<Rightarrow> int \<Rightarrow> 's bluetooth_data \<Rightarrow> (nat \<Rightarrow> byte) \<Rightarrow> nat \<Rightarrow> nat \<Rightarrow> nat \<Rightarrow> nat
     \<Rightarrow> fault + (int \<times> 's bluetooth_data)" where
  "bluetooth_hsp_write rsend errno d mem step first offset sz =
     (if appl_ptr (io d) < snd_pcm_ioplug.hw_ptr (io d) then
        (let (ret, d1) = bluetooth_playback_stop d
         in Inr (if ret = 0 then - EPIPE else ret, d1))
      else
        let frame_size = step div 8 in
        if \<not> u32 (bluetooth_data.count d + u32 (sz * frame_size)) \<le> link_mtu d \<and> frame_size = 0
        then Inl DIV_BY_ZERO
        else
          let frames_to_read =
                (if u32 (bluetooth_data.count d + u32 (sz * frame_size)) \<le> link_mtu d then sz
                 else usub32 (link_mtu d) (bluetooth_data.count d) div frame_size);
              buff = areas_offset first step offset
          in case memcpy_to (bluetooth_data.buffer d) (bluetooth_data.count d)
                    (mem_bytes mem buff (u32 (frame_size * frames_to_read))) of
               Inl f \<Rightarrow> Inl f
             | Inr buf' \<Rightarrow>
                 let d1 = d\<lparr>bluetooth_data.buffer := Some buf',
                            bluetooth_data.count :=
                              u32 (bluetooth_data.count d + u32 (frames_to_read * frame_size))\<rparr>
                 in if bluetooth_data.count d1 \<noteq> link_mtu d1 then Inr (int frames_to_read, d1)
                    else if 0 < rsend then
                      Inr (int frames_to_read, d1\<lparr>bluetooth_data.count := 0\<rparr>)
                    else if rsend < 0 then
                      Inr (if errno = EPIPE then - EIO else - errno, d1)
                    else Inr (- EIO, d1))"

section \<open>A2DP playback\<close>

text \<open>
  \<^verbatim>\<open>bluetooth_playback_start\<close>; \<open>pc\<close> is the result of \<^verbatim>\<open>pthread_create\<close>.
\<close>

definition bluetooth_playback_start :: "int \<Rightarrow> 's bluetooth_data \<Rightarrow> int \<times> 's bluetooth_data" where
  "bluetooth_playback_start pc d =
     (let d1 = d\<lparr>stopped := 0\<rparr>
      in if hw_thread d1 then (0, d1)
         else (- pc, if pc = 0 then d1\<lparr>hw_thread := True\<rparr> else d1))"

text \<open>
  ALSA's \<^verbatim>\<open>snd_pcm_start\<close> on an ioplug in the Prepared state: it runs the start
  callback and, when that succeeds, moves the PCM to Running.
\<close>

definition snd_pcm_start :: "int \<Rightarrow> 's bluetooth_data \<Rightarrow> int \<times> 's bluetooth_data" where
  "snd_pcm_start pc d =
     (let (err, d1) = bluetooth_playback_start pc d
      in if err < 0 then (err, d1)
         else (0, d1\<lparr>io := (io d1)\<lparr>state := SND_PCM_STATE_RUNNING\<rparr>\<rparr>))"

text \<open>
  What the autostart block of \<^verbatim>\<open>bluetooth_a2dp_write\<close> gets from ALSA: whether both
  software-parameter queries returned 0, the start threshold, and the result of
  \<^verbatim>\<open>pthread_create\<close> should the start callback run.
\<close>

record start_env =
  sw_params_ok :: bool
  threshold :: nat
  pthread_create :: int

definition autostart :: "start_env \<Rightarrow> 's bluetooth_data \<Rightarrow> int option \<times> 's bluetooth_data" where
  "autostart se d =
     (if state (io d) = SND_PCM_STATE_PREPARED \<and> sw_params_ok se \<and> threshold se \<le> appl_ptr (io d)
      then (let (ret, d1) = snd_pcm_start (pthread_create se) d
            in if ret \<noteq> 0 then (Some ret, d1) else (None, d1))
      else (None, d))"

text \<open>The value of a 32-bit unsigned quantity converted to \<^verbatim>\<open>snd_pcm_sframes_t\<close>.\<close>

definition s32 :: "nat \<Rightarrow> int" where
  "s32 n = (if n mod 2 ^ 32 < 2 ^ 31 then int (n mod 2 ^ 32) else int (n mod 2 ^ 32) - 2 ^ 32)"

text \<open>
  The encoder is external: \<open>enc s block out_len\<close> is \<^verbatim>\<open>sbc_encode\<close> on the codec state
  \<open>s\<close>, the input block and the space left in the wire buffer; it gives the return
  value \<open>encoded\<close>, the bytes it put at the output pointer (\<^verbatim>\<open>written\<close> is their
  number) and the new codec state.

  \<open>encode_block\<close> is the sequence the source has twice, once for the carried block and
  once in the loop: \<^verbatim>\<open>sbc_encode\<close>, the test of \<^verbatim>\<open>encoded\<close>, \<^verbatim>\<open>Increment a2dp
  buffers\<close>, and \<^verbatim>\<open>No space left for another frame then send\<close>.  The flag of the result
  is false when \<^verbatim>\<open>encoded <= 0\<close> (the source jumps to \<^verbatim>\<open>done\<close>).
\<close>

definition encode_block ::
  "('s \<Rightarrow> byte list \<Rightarrow> nat \<Rightarrow> int \<times> byte list \<times> 's) \<Rightarrow> nat \<Rightarrow> (nat \<Rightarrow> tx_outcome) \<Rightarrow> nat
     \<Rightarrow> 's bluetooth_data \<Rightarrow> byte list \<Rightarrow> fault + (bool \<times> 's bluetooth_data)" where
  "encode_block enc w txo frame_size d block =
     (let (encoded, out, sbc') =
            enc (sbc (a2dp d)) block (usub32 (link_mtu d) (bluetooth_a2dp.count (a2dp d)));
          written = length out
      in case memcpy_to (bluetooth_a2dp.buffer (a2dp d)) (bluetooth_a2dp.count (a2dp d)) out of
           Inl f \<Rightarrow> Inl f
         | Inr buf' \<Rightarrow>
             let d1 = d\<lparr>a2dp := (a2dp d)\<lparr>bluetooth_a2dp.buffer := Some buf', sbc := sbc'\<rparr>\<rparr>
             in if encoded \<le> 0 then Inr (False, d1)
                else if frame_size = 0 then Inl DIV_BY_ZERO
                else
                  let d2 = d1\<lparr>a2dp := (a2dp d1)\<lparr>
                             bluetooth_a2dp.count := u32 (bluetooth_a2dp.count (a2dp d1) + written),
                             frame_count := frame_count (a2dp d1) + 1,
                             samples := samples (a2dp d1) + encoded div int frame_size,
                             nsamples := nsamples (a2dp d1) + encoded div int frame_size\<rparr>\<rparr>
                  in if link_mtu d2 \<le> u32 (bluetooth_a2dp.count (a2dp d2) + written) then
                       (case avdtp_write w txo d2 of
                          Inl f \<Rightarrow> Inl f
                        | Inr (r, d3) \<Rightarrow> Inr (True, d3))
                     else Inr (True, d2))"

text \<open>
  \<^verbatim>\<open>Process this buffer in full chunks\<close>: the \<^verbatim>\<open>while\<close> loop.  It gives the Session,
  \<^verbatim>\<open>buff\<close>, \<^verbatim>\<open>bytes_left\<close> and whether control goes on to the label \<^verbatim>\<open>out\<close> (true)
  or jumps to \<^verbatim>\<open>done\<close> (false).  With a zero \<^verbatim>\<open>codesize\<close> the loop need not end;
  not returning is the value \<open>None\<close>.
\<close>

partial_function (option) a2dp_chunks ::
  "('s \<Rightarrow> byte list \<Rightarrow> nat \<Rightarrow> int \<times> byte list \<times> 's) \<Rightarrow> nat \<Rightarrow> (nat \<Rightarrow> tx_outcome)
     \<Rightarrow> (nat \<Rightarrow> byte) \<Rightarrow> nat \<Rightarrow> 's bluetooth_data \<Rightarrow> nat \<Rightarrow> nat
     \<Rightarrow> (fault + ('s bluetooth_data \<times> nat \<times> nat \<times> bool)) option" where
  "a2dp_chunks enc w txo mem frame_size d buff bytes_left =
     (if codesize (a2dp d) \<le> bytes_left then
        (case encode_block enc w txo frame_size d (mem_bytes mem buff (codesize (a2dp d))) of
           Inl f \<Rightarrow> Some (Inl f)
         | Inr (ok, d1) \<Rightarrow>
             if \<not> ok then Some (Inr (d1, buff, bytes_left, False))
             else a2dp_chunks enc w txo mem frame_size d1
                    (buff + codesize (a2dp d1)) (bytes_left - codesize (a2dp d1)))
      else Some (Inr (d, buff, bytes_left, True)))"

text \<open>
  \<^verbatim>\<open>Check if we have any left over data from the last write\<close>: the block before the
  loop, with the same result type as the loop.
\<close>

definition a2dp_leftover ::
  "('s \<Rightarrow> byte list \<Rightarrow> nat \<Rightarrow> int \<times> byte list \<times> 's) \<Rightarrow> nat \<Rightarrow> (nat \<Rightarrow> tx_outcome)
     \<Rightarrow> (nat \<Rightarrow> byte) \<Rightarrow> nat \<Rightarrow> 's bluetooth_data \<Rightarrow> nat \<Rightarrow> nat
     \<Rightarrow> (fault + ('s bluetooth_data \<times> nat \<times> nat \<times> bool)) option" where
  "a2dp_leftover enc w txo mem frame_size d buff bytes_left =
     (if 0 < bluetooth_data.count d then
        (let additional_bytes_needed = usub32 (codesize (a2dp d)) (bluetooth_data.count d)
         in if bytes_left < additional_bytes_needed then Some (Inr (d, buff, bytes_left, True))
            else
              case memcpy_to (bluetooth_data.buffer d) (bluetooth_data.count d)
                     (mem_bytes mem buff additional_bytes_needed) of
                Inl f \<Rightarrow> Some (Inl f)
              | Inr buf' \<Rightarrow>
                  if length buf' < codesize (a2dp d) then Some (Inl OUT_OF_BOUNDS)
                  else
                    (case encode_block enc w txo frame_size (d\<lparr>bluetooth_data.buffer := Some buf'\<rparr>)
                            (take (codesize (a2dp d)) buf') of
                       Inl f \<Rightarrow> Some (Inl f)
                     | Inr (ok, d1) \<Rightarrow>
                         if \<not> ok then Some (Inr (d1, buff, bytes_left, False))
                         else a2dp_chunks enc w txo mem frame_size (d1\<lparr>bluetooth_data.count := 0\<rparr>)
                                (buff + additional_bytes_needed)
                                (bytes_left - additional_bytes_needed)))
      else a2dp_chunks enc w txo mem frame_size d buff bytes_left)"

text \<open>
  The labels \<^verbatim>\<open>out\<close> (\<^verbatim>\<open>Copy the extra to our temp buffer for the next write\<close>) and
  \<^verbatim>\<open>done\<close> (the return value \<^verbatim>\<open>size - bytes_left / frame_size\<close>).
\<close>

definition a2dp_out ::
  "(nat \<Rightarrow> byte) \<Rightarrow> 's bluetooth_data \<Rightarrow> nat \<Rightarrow> nat \<Rightarrow> fault + ('s bluetooth_data \<times> nat)" where
  "a2dp_out mem d buff bytes_left =
     (if 0 < bytes_left then
        (case memcpy_to (bluetooth_data.buffer d) (bluetooth_data.count d)
                (mem_bytes mem buff bytes_left) of
           Inl f \<Rightarrow> Inl f
         | Inr buf' \<Rightarrow>
             Inr (d\<lparr>bluetooth_data.buffer := Some buf',
                    bluetooth_data.count := u32 (bluetooth_data.count d + bytes_left)\<rparr>, 0))
      else Inr (d, bytes_left))"

definition a2dp_done :: "nat \<Rightarrow> nat \<Rightarrow> 's bluetooth_data \<Rightarrow> nat \<Rightarrow> fault + (int \<times> 's bluetooth_data)" where
  "a2dp_done sz frame_size d bytes_left =
     (if frame_size = 0 then Inl DIV_BY_ZERO
      else Inr (s32 (usub32 sz (bytes_left div frame_size)), d))"

text \<open>
  \<^verbatim>\<open>bluetooth_a2dp_write\<close>; \<open>step\<close> and \<open>first\<close> are the fields of \<^verbatim>\<open>areas\<close>, \<open>sz\<close> the
  argument \<^verbatim>\<open>size\<close>.
\<close>

definition bluetooth_a2dp_write ::
  "('s \<Rightarrow> byte list \<Rightarrow> nat \<Rightarrow> int \<times> byte list \<times> 's) \<Rightarrow> nat \<Rightarrow> (nat \<Rightarrow> tx_outcome) \<Rightarrow> start_env
     \<Rightarrow> 's bluetooth_data \<Rightarrow> (nat \<Rightarrow> byte) \<Rightarrow> nat \<Rightarrow> nat \<Rightarrow> nat \<Rightarrow> nat
     \<Rightarrow> (fault + (int \<times> 's bluetooth_data)) option" where
  "bluetooth_a2dp_write enc w txo se d mem step first offset sz =
     (let frame_size = step div 8;
          bytes_left = u32 (sz * frame_size);
          buff = areas_offset first step offset
      in if appl_ptr (io d) < snd_pcm_ioplug.hw_ptr (io d) then
           (let (ret, d1) = bluetooth_playback_stop d
            in Some (Inr (if ret = 0 then - EPIPE else ret, d1\<lparr>reset := 1\<rparr>)))
         else
           case autostart se d of
             (Some ret, d1) \<Rightarrow> Some (Inr (ret, d1))
           | (None, d1) \<Rightarrow>
               (case a2dp_leftover enc w txo mem frame_size d1 buff bytes_left of
                  None \<Rightarrow> None
                | Some (Inl f) \<Rightarrow> Some (Inl f)
                | Some (Inr (d2, buff', bytes_left', to_out)) \<Rightarrow>
                    if to_out then
                      (case a2dp_out mem d2 buff' bytes_left' of
                         Inl f \<Rightarrow> Some (Inl f)
                       | Inr (d3, bytes_left'') \<Rightarrow> Some (a2dp_done sz frame_size d3 bytes_left''))
                    else Some (a2dp_done sz frame_size d2 bytes_left')))"

section \<open>Hardware parameters\<close>

text \<open>The macros \<^verbatim>\<open>MIN\<close> and \<^verbatim>\<open>MAX\<close> of the source, on \<^verbatim>\<open>uint8_t\<close> operands.\<close>

definition MIN_u8 :: "u8 \<Rightarrow> u8 \<Rightarrow> u8" where
  "MIN_u8 x y = (if x < y then x else y)"

definition MAX_u8 :: "u8 \<Rightarrow> u8 \<Rightarrow> u8" where
  "MAX_u8 x y = (if x > y then x else y)"

definition MAX_BITPOOL :: u8 where "MAX_BITPOOL = 64"
definition MIN_BITPOOL :: u8 where "MIN_BITPOOL = 2"

text \<open>
  \<^verbatim>\<open>default_bitpool\<close>: the \<^verbatim>\<open>switch\<close> statements, case labels in the order of the
  source.
\<close>

definition default_bitpool :: "ipc_h \<Rightarrow> u8 \<Rightarrow> u8 \<Rightarrow> u8" where
  "default_bitpool k freq mode =
     (if freq = BT_SBC_SAMPLING_FREQ_16000 k \<or> freq = BT_SBC_SAMPLING_FREQ_32000 k then 53
      else if freq = BT_SBC_SAMPLING_FREQ_44100 k then
        (if mode = BT_A2DP_CHANNEL_MODE_MONO k \<or> mode = BT_A2DP_CHANNEL_MODE_DUAL_CHANNEL k then 31
         else if mode = BT_A2DP_CHANNEL_MODE_STEREO k \<or> mode = BT_A2DP_CHANNEL_MODE_JOINT_STEREO k
         then 53
         else 53)
      else if freq = BT_SBC_SAMPLING_FREQ_48000 k then
        (if mode = BT_A2DP_CHANNEL_MODE_MONO k \<or> mode = BT_A2DP_CHANNEL_MODE_DUAL_CHANNEL k then 29
         else if mode = BT_A2DP_CHANNEL_MODE_STEREO k \<or> mode = BT_A2DP_CHANNEL_MODE_JOINT_STEREO k
         then 51
         else 51)
      else 53)"

text \<open>\<^verbatim>\<open>bluetooth_convert_rate_to_a2dp\<close>: \<open>None\<close> is the return value \<open>-1\<close>.\<close>

definition bluetooth_convert_rate_to_a2dp :: "ipc_h \<Rightarrow> nat \<Rightarrow> u8 option" where
  "bluetooth_convert_rate_to_a2dp k r =
     (if r = 48000 then Some (BT_SBC_SAMPLING_FREQ_48000 k)
      else if r = 44100 then Some (BT_SBC_SAMPLING_FREQ_44100 k)
      else if r = 32000 then Some (BT_SBC_SAMPLING_FREQ_32000 k)
      else if r = 16000 then Some (BT_SBC_SAMPLING_FREQ_16000 k)
      else None)"

text \<open>
  \<^verbatim>\<open>bluetooth_a2dp_init\<close> works on \<^verbatim>\<open>data->a2dp.sbc_capabilities\<close> in place: on entry
  the record holds what the remote device advertised, on exit the chosen configuration.
  Each block of the function is a function on that record.
\<close>

definition init_channel_mode ::
  "ipc_h \<Rightarrow> bluetooth_alsa_config \<Rightarrow> nat \<Rightarrow> sbc_capabilities_t \<Rightarrow> sbc_capabilities_t" where
  "init_channel_mode k cfg channels cap =
     (let cm = sbc_capabilities_t.channel_mode cap
      in if has_channel_mode cfg
         then cap\<lparr>sbc_capabilities_t.channel_mode := bluetooth_alsa_config.channel_mode cfg\<rparr>
         else if channels = 2 then
           (if cm AND BT_A2DP_CHANNEL_MODE_JOINT_STEREO k \<noteq> 0
            then cap\<lparr>sbc_capabilities_t.channel_mode := BT_A2DP_CHANNEL_MODE_JOINT_STEREO k\<rparr>
            else if cm AND BT_A2DP_CHANNEL_MODE_STEREO k \<noteq> 0
            then cap\<lparr>sbc_capabilities_t.channel_mode := BT_A2DP_CHANNEL_MODE_STEREO k\<rparr>
            else if cm AND BT_A2DP_CHANNEL_MODE_DUAL_CHANNEL k \<noteq> 0
            then cap\<lparr>sbc_capabilities_t.channel_mode := BT_A2DP_CHANNEL_MODE_DUAL_CHANNEL k\<rparr>
            else cap)
         else
           (if cm AND BT_A2DP_CHANNEL_MODE_MONO k \<noteq> 0
            then cap\<lparr>sbc_capabilities_t.channel_mode := BT_A2DP_CHANNEL_MODE_MONO k\<rparr>
            else cap))"

text \<open>\<open>None\<close>: \<^verbatim>\<open>No supported block lengths\<close>, the record is untouched.\<close>

definition init_block_length ::
  "ipc_h \<Rightarrow> bluetooth_alsa_config \<Rightarrow> sbc_capabilities_t \<Rightarrow> sbc_capabilities_t option" where
  "init_block_length k cfg cap =
     (let bl = sbc_capabilities_t.block_length cap
      in if has_block_length cfg
         then Some (cap\<lparr>sbc_capabilities_t.block_length := bluetooth_alsa_config.block_length cfg\<rparr>)
         else if bl AND BT_A2DP_BLOCK_LENGTH_16 k \<noteq> 0
         then Some (cap\<lparr>sbc_capabilities_t.block_length := BT_A2DP_BLOCK_LENGTH_16 k\<rparr>)
         else if bl AND BT_A2DP_BLOCK_LENGTH_12 k \<noteq> 0
         then Some (cap\<lparr>sbc_capabilities_t.block_length := BT_A2DP_BLOCK_LENGTH_12 k\<rparr>)
         else if bl AND BT_A2DP_BLOCK_LENGTH_8 k \<noteq> 0
         then Some (cap\<lparr>sbc_capabilities_t.block_length := BT_A2DP_BLOCK_LENGTH_8 k\<rparr>)
         else if bl AND BT_A2DP_BLOCK_LENGTH_4 k \<noteq> 0
         then Some (cap\<lparr>sbc_capabilities_t.block_length := BT_A2DP_BLOCK_LENGTH_4 k\<rparr>)
         else None)"

text \<open>
  The flag is false for \<^verbatim>\<open>No supported subbands\<close>; the override, when there is one,
  has been stored by then.
\<close>

definition init_subbands ::
  "ipc_h \<Rightarrow> bluetooth_alsa_config \<Rightarrow> sbc_capabilities_t \<Rightarrow> bool \<times> sbc_capabilities_t" where
  "init_subbands k cfg cap =
     (let cap1 = (if has_subbands cfg
                  then cap\<lparr>sbc_capabilities_t.subbands := bluetooth_alsa_config.subbands cfg\<rparr>
                  else cap);
          sb = sbc_capabilities_t.subbands cap1
      in if sb AND BT_A2DP_SUBBANDS_8 k \<noteq> 0
         then (True, cap1\<lparr>sbc_capabilities_t.subbands := BT_A2DP_SUBBANDS_8 k\<rparr>)
         else if sb AND BT_A2DP_SUBBANDS_4 k \<noteq> 0
         then (True, cap1\<lparr>sbc_capabilities_t.subbands := BT_A2DP_SUBBANDS_4 k\<rparr>)
         else (False, cap1))"

definition init_allocation_method ::
  "ipc_h \<Rightarrow> bluetooth_alsa_config \<Rightarrow> sbc_capabilities_t \<Rightarrow> sbc_capabilities_t" where
  "init_allocation_method k cfg cap =
     (let cap1 = (if has_allocation_method cfg
                  then cap\<lparr>sbc_capabilities_t.allocation_method :=
                             bluetooth_alsa_config.allocation_method cfg\<rparr>
                  else cap);
          am = sbc_capabilities_t.allocation_method cap1
      in if am AND BT_A2DP_ALLOCATION_LOUDNESS k \<noteq> 0
         then cap1\<lparr>sbc_capabilities_t.allocation_method := BT_A2DP_ALLOCATION_LOUDNESS k\<rparr>
         else if am AND BT_A2DP_ALLOCATION_SNR k \<noteq> 0
         then cap1\<lparr>sbc_capabilities_t.allocation_method := BT_A2DP_ALLOCATION_SNR k\<rparr>
         else cap1)"

definition init_bitpool ::
  "ipc_h \<Rightarrow> bluetooth_alsa_config \<Rightarrow> sbc_capabilities_t \<Rightarrow> sbc_capabilities_t" where
  "init_bitpool k cfg cap =
     (let min_bitpool' =
            (if has_bitpool cfg then bitpool cfg else MAX_u8 MIN_BITPOOL (min_bitpool cap));
          max_bitpool' =
            (if has_bitpool cfg then bitpool cfg
             else MIN_u8 (default_bitpool k (frequency cap) (sbc_capabilities_t.channel_mode cap))
                         (max_bitpool cap))
      in cap\<lparr>min_bitpool := min_bitpool', max_bitpool := max_bitpool'\<rparr>)"

text \<open>
  The whole function on the record: the return value and the record as the source
  leaves it (on a failure, with the fields assigned so far); \<open>r\<close> and \<open>channels\<close> are
  the rate and channel count of \<^verbatim>\<open>params\<close>.
\<close>

definition a2dp_init_caps ::
  "ipc_h \<Rightarrow> bluetooth_alsa_config \<Rightarrow> sbc_capabilities_t \<Rightarrow> nat \<Rightarrow> nat \<Rightarrow> int \<times> sbc_capabilities_t" where
  "a2dp_init_caps k cfg cap r channels =
     (case bluetooth_convert_rate_to_a2dp k r of
        None \<Rightarrow> (- 1, cap)
      | Some f \<Rightarrow>
          let cap2 = init_channel_mode k cfg channels (cap\<lparr>frequency := f\<rparr>)
          in if sbc_capabilities_t.channel_mode cap2 = 0 then (- 1, cap2)
             else
               (case init_block_length k cfg cap2 of
                  None \<Rightarrow> (- 1, cap2)
                | Some cap3 \<Rightarrow>
                    (case init_subbands k cfg cap3 of
                       (False, cap4) \<Rightarrow> (- 1, cap4)
                     | (True, cap4) \<Rightarrow>
                         (0, init_bitpool k cfg (init_allocation_method k cfg cap4)))))"

definition bluetooth_a2dp_init ::
  "ipc_h \<Rightarrow> 's bluetooth_data \<Rightarrow> nat \<Rightarrow> nat \<Rightarrow> int \<times> 's bluetooth_data" where
  "bluetooth_a2dp_init k d r channels =
     (let (err, cap) = a2dp_init_caps k (alsa_config d) (sbc_capabilities (a2dp d)) r channels
      in (err, d\<lparr>a2dp := (a2dp d)\<lparr>sbc_capabilities := cap\<rparr>\<rparr>))"

text \<open>\<^verbatim>\<open>bluetooth_configuration_cmp\<close>; \<open>r\<close> is the rate of \<^verbatim>\<open>params\<close>.\<close>

definition bluetooth_configuration_cmp :: "ipc_h \<Rightarrow> 's bluetooth_data \<Rightarrow> nat \<Rightarrow> int" where
  "bluetooth_configuration_cmp k d r =
     (let cfg = alsa_config d; cap = sbc_capabilities (a2dp d)
      in case bluetooth_convert_rate_to_a2dp k r of
           None \<Rightarrow> - 1
         | Some a2dp_rate \<Rightarrow>
             if frequency cap \<noteq> a2dp_rate then - 1
             else if has_bitpool cfg \<and>
                     (max_bitpool cap \<noteq> bitpool cfg \<or> min_bitpool cap \<noteq> bitpool cfg) then - 1
             else if has_subbands cfg \<and>
                     \<not> (bluetooth_alsa_config.subbands cfg AND sbc_capabilities_t.subbands cap \<noteq> 0)
             then - 1
             else if has_allocation_method cfg \<and>
                     \<not> (bluetooth_alsa_config.allocation_method cfg
                          AND sbc_capabilities_t.allocation_method cap \<noteq> 0)
             then - 1
             else if has_block_length cfg \<and>
                     \<not> (bluetooth_alsa_config.block_length cfg
                          AND sbc_capabilities_t.block_length cap \<noteq> 0)
             then - 1
             else if has_channel_mode cfg \<and>
                     \<not> (bluetooth_alsa_config.channel_mode cfg
                          AND sbc_capabilities_t.channel_mode cap \<noteq> 0)
             then - 1
             else 0)"

text \<open>
  What a hardware-parameter call gets from outside the plugin, in the order of use: the
  results of sending \<^verbatim>\<open>BT_OPEN\<close> and of expecting its response, the same for
  \<^verbatim>\<open>BT_SET_CONFIGURATION\<close> and the \<^verbatim>\<open>link_mtu\<close> of its response, whether each of the
  two \<^verbatim>\<open>realloc\<close> calls succeeds and the contents of fresh heap bytes, the result of
  expecting the delay report and its \<^verbatim>\<open>delay\<close>, and what the SBC library gives
  \<^verbatim>\<open>bluetooth_a2dp_setup\<close>: the initialised codec state and \<^verbatim>\<open>sbc_get_codesize\<close>.
\<close>

record 's hw_env =
  open_send :: int
  open_rsp :: int
  cfg_send :: int
  cfg_rsp :: int
  rsp_link_mtu :: u32
  realloc_buffer_ok :: bool
  realloc_a2dp_buffer_ok :: bool
  junk :: "nat \<Rightarrow> byte"
  delay_rsp :: int
  ind_delay :: int
  sbc_init :: 's
  sbc_get_codesize :: nat

text \<open>
  \<^verbatim>\<open>realloc(p, n)\<close>: on success a block of \<open>n\<close> bytes that keeps the old contents up
  to \<open>n\<close>; on failure the null pointer.
\<close>

definition realloc :: "byte list option \<Rightarrow> nat \<Rightarrow> bool \<Rightarrow> (nat \<Rightarrow> byte) \<Rightarrow> byte list option" where
  "realloc p n ok fresh =
     (if ok then
        (let old = (case p of None \<Rightarrow> [] | Some b \<Rightarrow> b)
         in Some (take n old @ map fresh [length old ..< n]))
      else None)"

text \<open>
  The two \<^verbatim>\<open>realloc\<close> calls and the test that follows them, the same lines in
  \<^verbatim>\<open>bluetooth_hsp_hw_params\<close> and \<^verbatim>\<open>bluetooth_a2dp_hw_params\<close>.  The result is
  \<open>None\<close> when the source returns \<^verbatim>\<open>-ENOMEM\<close>.
\<close>

definition resize_buffers :: "'s hw_env \<Rightarrow> 's bluetooth_data \<Rightarrow> 's bluetooth_data \<times> bool" where
  "resize_buffers e d =
     (let b = realloc (bluetooth_data.buffer d) (link_mtu d) (realloc_buffer_ok e) (junk e);
          ab = realloc (bluetooth_a2dp.buffer (a2dp d)) (link_mtu d) (realloc_a2dp_buffer_ok e) (junk e);
          d1 = d\<lparr>bluetooth_data.buffer := b, a2dp := (a2dp d)\<lparr>bluetooth_a2dp.buffer := ab\<rparr>\<rparr>
      in if bluetooth_data.buffer d1 = None \<or> bluetooth_a2dp.buffer (a2dp d1) = None
         then (d1\<lparr>bluetooth_data.buffer := None,
                  a2dp := (a2dp d1)\<lparr>bluetooth_a2dp.buffer := None\<rparr>\<rparr>, False)
         else (d1, True))"

text \<open>
  \<^verbatim>\<open>bluetooth_a2dp_setup\<close>.  The fields of \<^verbatim>\<open>sbc_t\<close> it fills in belong to the codec
  state; the plugin's own fields are \<^verbatim>\<open>sbc_initialized\<close>, \<^verbatim>\<open>codesize\<close> and
  \<^verbatim>\<open>count\<close>.
\<close>

definition bluetooth_a2dp_setup :: "'s hw_env \<Rightarrow> 's bluetooth_a2dp \<Rightarrow> 's bluetooth_a2dp" where
  "bluetooth_a2dp_setup e a =
     a\<lparr>sbc := sbc_init e, sbc_initialized := True, codesize := sbc_get_codesize e,
       bluetooth_a2dp.count := sizeof_rtp_header + sizeof_rtp_payload\<rparr>"

definition stream_open :: "'s hw_env \<Rightarrow> 's bluetooth_data \<Rightarrow> int \<times> 's bluetooth_data" where
  "stream_open e d =
     (let (err, d1) = audioservice_send (open_send e) BT_OPEN d
      in if err < 0 then (err, d1) else (open_rsp e, d1))"

text \<open>\<^verbatim>\<open>bluetooth_a2dp_hw_params\<close> from the label \<^verbatim>\<open>configure\<close>.\<close>

definition a2dp_configure :: "ipc_h \<Rightarrow> 's hw_env \<Rightarrow> 's bluetooth_data \<Rightarrow> int \<times> 's bluetooth_data" where
  "a2dp_configure k e d =
     (let (err, d1) = audioservice_send (cfg_send e) BT_SET_CONFIGURATION d
      in if err < 0 then (err, d1)
         else if cfg_rsp e < 0 then (cfg_rsp e, d1)
         else
           let d2 = d1\<lparr>bluetooth_data.transport := BT_CAPABILITIES_TRANSPORT_A2DP k,
                      link_mtu := unat (rsp_link_mtu e)\<rparr>;
               (d3, ok) = resize_buffers e d2
           in if \<not> ok then (- ENOMEM, d3)
              else if delay_rsp e < 0 then (delay_rsp e, d3)
              else
                let d4 = d3\<lparr>sink_delay := ind_delay e\<rparr>;
                    d5 = d4\<lparr>a2dp := bluetooth_a2dp_setup e (a2dp d4)\<rparr>
                in (0, d5\<lparr>a2dp_stream_state := STREAM_CONFIGURED\<rparr>))"

text \<open>
  \<^verbatim>\<open>bluetooth_a2dp_hw_params\<close>; \<open>r\<close> and \<open>channels\<close> are the rate and channel count of
  \<^verbatim>\<open>params\<close>.
\<close>

definition bluetooth_a2dp_hw_params ::
  "ipc_h \<Rightarrow> 's hw_env \<Rightarrow> 's bluetooth_data \<Rightarrow> nat \<Rightarrow> nat \<Rightarrow> int \<times> 's bluetooth_data" where
  "bluetooth_a2dp_hw_params k e d r channels =
     (if a2dp_stream_state d \<noteq> STREAM_CLOSED then
        (if bluetooth_configuration_cmp k d r \<noteq> 0 then a2dp_configure k e d else (0, d))
      else
        let (err, d1) = stream_open e d
        in if err < 0 then (err, d1)
           else
             let d2 = d1\<lparr>a2dp_stream_state := STREAM_OPENED\<rparr>;
                 (err', d3) = bluetooth_a2dp_init k d2 r channels
             in if err' < 0 then (err', d3) else a2dp_configure k e d3)"

definition bluetooth_hsp_hw_params ::
  "ipc_h \<Rightarrow> 's hw_env \<Rightarrow> 's bluetooth_data \<Rightarrow> int \<times> 's bluetooth_data" where
  "bluetooth_hsp_hw_params k e d =
     (let (err, d1) = audioservice_send (open_send e) BT_OPEN d
      in if err < 0 then (err, d1)
         else if open_rsp e < 0 then (open_rsp e, d1)
         else
           let (err', d2) = audioservice_send (cfg_send e) BT_SET_CONFIGURATION d1
           in if err' < 0 then (err', d2)
              else if cfg_rsp e < 0 then (cfg_rsp e, d2)
              else
                let d3 = d2\<lparr>bluetooth_data.transport := BT_CAPABILITIES_TRANSPORT_SCO k,
                           link_mtu := unat (rsp_link_mtu e)\<rparr>;
                    (d4, ok) = resize_buffers e d3
                in if \<not> ok then (- ENOMEM, d4)
                   else if delay_rsp e < 0 then (delay_rsp e, d4)
                   else (0, d4\<lparr>sink_delay := ind_delay e\<rparr>))"

section \<open>Audio clock simulator\<close>





section \<open>Notions of the specification\<close>


text \<open>The packets a transfer call has left on the wire, and the carried PCM bytes.\<close>

definition sent_packets :: "(fault + (int \<times> 's bluetooth_data)) option \<Rightarrow> byte list list" where
  "sent_packets r = (case r of Some (Inr (ret, d)) \<Rightarrow> wire d | _ \<Rightarrow> [])"



text \<open>
  A Session ready for A2DP transfer: both buffers hold \<^verbatim>\<open>link_mtu\<close> bytes (as
  \<^verbatim>\<open>bluetooth_a2dp_hw_params\<close> leaves them), the wire-buffer fill lies between the
  packet-header size and the link MTU, the link MTU holds a codec block, the carried
  byte count is below one codec block, and no packet sent so far exceeds the link MTU.
\<close>

definition session_ok :: "'s bluetooth_data \<Rightarrow> bool" where
  "session_ok d \<longleftrightarrow>
     (\<exists>b. bluetooth_data.buffer d = Some b \<and> length b = link_mtu d) \<and>
     (\<exists>ab. bluetooth_a2dp.buffer (a2dp d) = Some ab \<and> length ab = link_mtu d) \<and>
     sizeof_rtp_header + sizeof_rtp_payload \<le> bluetooth_a2dp.count (a2dp d) \<and>
     bluetooth_a2dp.count (a2dp d) \<le> link_mtu d \<and>
     link_mtu d < 2 ^ 32 \<and>
     0 < codesize (a2dp d) \<and>
     codesize (a2dp d) \<le> link_mtu d \<and>
     bluetooth_data.count d < codesize (a2dp d) \<and>
     (\<forall>p \<in> set (wire d). length p \<le> link_mtu d)"







section \<open>Concrete Sessions and environments\<close>

text \<open>A Session as \<^verbatim>\<open>bluetooth_init\<close> leaves it, for concrete runs.\<close>

definition session0 :: "unit bluetooth_data" where
  "session0 = \<lparr>
     io = \<lparr>stream = SND_PCM_STREAM_PLAYBACK, state = SND_PCM_STATE_OPEN,
           hw_ptr = 0, appl_ptr = 0, rate = 44100, period_size = 1024,
           buffer_size = 6144, nonblock = False\<rparr>,
     alsa_config = \<lparr>device = ''00:11:22:33:44:55'', has_device = True,
           transport = 0, has_transport = False, rate = 0, has_rate = False,
           channel_mode = 0, has_channel_mode = False,
           allocation_method = 0, has_allocation_method = False,
           subbands = 0, has_subbands = False,
           block_length = 0, has_block_length = False,
           bitpool = 0, has_bitpool = False, autoconnect = False\<rparr>,
     hw_ptr = 0, transport = 0, link_mtu = 0, stream_fd = - 1,
     buffer = None, count = 0,
     a2dp = \<lparr>sbc_capabilities = \<lparr>seid = 1, channel_mode = 15, frequency = 3,
                 allocation_method = 3, subbands = 3, block_length = 15,
                 min_bitpool = 2, max_bitpool = 64\<rparr>,
             sbc = (), sbc_initialized = False, codesize = 0, samples = 0,
             buffer = None, count = 0, nsamples = 0, seq_num = 0, frame_count = 0\<rparr>,
     hw_thread = False, stopped = 0, reset = 0,
     a2dp_stream_state = STREAM_CLOSED, sink_delay = 0,
     server_sent = [], wire = [], tx_attempts = 0, pipe_written = 0 \<rparr>"

text \<open>
  An encoder that turns every block into a frame of seven bytes (the SBC frame length
  for mono, four subbands, four blocks, bitpool 2, where a block is 32 bytes) and
  fails when fewer than seven bytes are free.
\<close>

definition enc_frame7 :: "unit \<Rightarrow> byte list \<Rightarrow> nat \<Rightarrow> int \<times> byte list \<times> unit" where
  "enc_frame7 s block out_len =
     (if out_len < 7 then (- 28, [], s) else (int (length block), replicate 7 0xAA, s))"

definition tx_ready :: "nat \<Rightarrow> tx_outcome" where
  "tx_ready n = \<lparr>retpoll = 1, pollout = True, send_ret = 1, tx_errno = 0\<rparr>"

definition tx_full :: "nat \<Rightarrow> tx_outcome" where
  "tx_full n = \<lparr>retpoll = 0, pollout = False, send_ret = 0, tx_errno = 0\<rparr>"

definition no_start :: start_env where
  "no_start = \<lparr>sw_params_ok = False, threshold = 0, pthread_create = 0\<rparr>"

definition silence :: "nat \<Rightarrow> byte" where
  "silence i = 0"


text \<open>A configured A2DP Session with the given link MTU and codec block size.\<close>

definition a2dp_session :: "nat \<Rightarrow> nat \<Rightarrow> unit bluetooth_data" where
  "a2dp_session mtu cs =
     session0\<lparr>link_mtu := mtu, bluetooth_data.buffer := Some (replicate mtu 0),
       a2dp := (a2dp session0)\<lparr>bluetooth_a2dp.buffer := Some (replicate mtu 0),
          bluetooth_a2dp.count := 13, codesize := cs\<rparr>,
       a2dp_stream_state := STREAM_CONFIGURED\<rparr>"


text \<open>
  A Session configured for 44.1 kHz joint stereo with the default bitpool, and one
  whose remote device advertises the bitpool range 60 to 64.
\<close>

definition configured0 :: "unit bluetooth_data" where
  "configured0 =
     session0\<lparr>a2dp_stream_state := STREAM_CONFIGURED,
       a2dp := (a2dp session0)\<lparr>sbc_capabilities :=
          \<lparr>seid = 1, channel_mode = 1, frequency = 2, allocation_method = 1, subbands = 1,
           block_length = 1, min_bitpool = 2, max_bitpool = 53\<rparr>\<rparr>\<rparr>"

definition caps_high_bitpool :: sbc_capabilities_t where
  "caps_high_bitpool = (sbc_capabilities (a2dp session0))\<lparr>min_bitpool := 60, max_bitpool := 64\<rparr>"

text \<open>
  Environments of a hardware-parameter call: one where everything succeeds and the
  link MTU is 48, the same with a link MTU of 335, one where the second
  \<^verbatim>\<open>realloc\<close> fails; and of a prepare call whose \<^verbatim>\<open>START_STREAM\<close> response is
  the error \<^verbatim>\<open>EAGAIN\<close>.
\<close>

definition hw_env_mtu48 :: "unit hw_env" where
  "hw_env_mtu48 =
     \<lparr>open_send = 0, open_rsp = 0, cfg_send = 0, cfg_rsp = 0, rsp_link_mtu = 48,
      realloc_buffer_ok = True, realloc_a2dp_buffer_ok = True, junk = silence,
      delay_rsp = 0, ind_delay = 1500, sbc_init = (), sbc_get_codesize = 512\<rparr>"


definition hw_env_nomem :: "unit hw_env" where
  "hw_env_nomem = hw_env_mtu48\<lparr>realloc_a2dp_buffer_ok := False\<rparr>"


text \<open>
  A playback Session in underrun (the hardware pointer is ahead of the application
  pointer), a Session in the middle of a packet, and a running playback Session whose
  pointer is at the fifth of six periods.
\<close>

definition underrun_session :: "unit bluetooth_data" where
  "underrun_session = (a2dp_session 48 32)\<lparr>io := (io session0)\<lparr>snd_pcm_ioplug.hw_ptr := 1, appl_ptr := 0\<rparr>\<rparr>"

definition mid_packet :: "unit bluetooth_data" where
  "mid_packet =
     (a2dp_session 48 32)\<lparr>a2dp := (a2dp (a2dp_session 48 32))\<lparr>
        bluetooth_a2dp.count := 41, frame_count := 4, samples := 32, nsamples := 4128,
        seq_num := 0x1234\<rparr>\<rparr>"


section \<open>Properties\<close>

subsection \<open>Arithmetic of the machine types\<close>





subsection \<open>Reconfiguration\<close>





subsection \<open>Default bitpool\<close>

lemma init_steps_bitpool:
  "min_bitpool (init_channel_mode k cfg ch cap) = min_bitpool cap"
  "max_bitpool (init_channel_mode k cfg ch cap) = max_bitpool cap"
  "init_block_length k cfg cap = Some cap' \<Longrightarrow> min_bitpool cap' = min_bitpool cap"
  "init_block_length k cfg cap = Some cap' \<Longrightarrow> max_bitpool cap' = max_bitpool cap"
  "min_bitpool (snd (init_subbands k cfg cap)) = min_bitpool cap"
  "max_bitpool (snd (init_subbands k cfg cap)) = max_bitpool cap"
  "min_bitpool (init_allocation_method k cfg cap) = min_bitpool cap"
  "max_bitpool (init_allocation_method k cfg cap) = max_bitpool cap"
  by (auto simp add: init_channel_mode_def init_block_length_def init_subbands_def
      init_allocation_method_def Let_def split: if_splits)

lemma init_bitpool_fields:
  "frequency (init_bitpool k cfg cap) = frequency cap"
  "sbc_capabilities_t.channel_mode (init_bitpool k cfg cap) = sbc_capabilities_t.channel_mode cap"
  "\<not> has_bitpool cfg \<Longrightarrow> min_bitpool (init_bitpool k cfg cap) = MAX_u8 MIN_BITPOOL (min_bitpool cap)"
  "\<not> has_bitpool cfg \<Longrightarrow> max_bitpool (init_bitpool k cfg cap) =
      MIN_u8 (default_bitpool k (frequency cap) (sbc_capabilities_t.channel_mode cap)) (max_bitpool cap)"
  by (simp_all add: init_bitpool_def Let_def)

lemma default_bitpool_values: "default_bitpool k f m \<in> {29, 31, 51, 53}"
  by (simp add: default_bitpool_def)

lemma a2dp_init_rate:
  "fst (a2dp_init_caps k cfg cap r channels) = 0 \<Longrightarrow> r \<in> {16000, 32000, 44100, 48000}"
  by (auto simp add: a2dp_init_caps_def bluetooth_convert_rate_to_a2dp_def
      split: option.splits if_splits)

text \<open>
  C2, as amended.  When \<^verbatim>\<open>bluetooth_a2dp_init\<close> succeeds with no bitpool override
  (so for each of the four rates and every capability record of the remote device), the
  \<^verbatim>\<open>max_bitpool\<close> it derives is the smaller of the table value and the advertised
  \<^verbatim>\<open>max_bitpool\<close>, and the \<^verbatim>\<open>min_bitpool\<close> it derives is the larger of 2 and the
  advertised \<^verbatim>\<open>min_bitpool\<close>.  So the derived maximum never exceeds the advertised
  maximum and the derived minimum is never below the advertised minimum; the table
  value is one of 29, 31, 51, 53; and the derived maximum lies within the advertised
  range whenever the advertised minimum is at most the table value and at most the
  advertised maximum.
\<close>

theorem a2dp_init_bitpool_bounds:
  assumes "a2dp_init_caps k cfg cap r channels = (0, cap')" and "\<not> has_bitpool cfg"
  shows "r \<in> {16000, 32000, 44100, 48000} \<and>
         max_bitpool cap' =
           MIN_u8 (default_bitpool k (frequency cap') (sbc_capabilities_t.channel_mode cap'))
                  (max_bitpool cap) \<and>
         min_bitpool cap' = MAX_u8 MIN_BITPOOL (min_bitpool cap) \<and>
         max_bitpool cap' \<le> max_bitpool cap \<and>
         min_bitpool cap \<le> min_bitpool cap' \<and>
         default_bitpool k (frequency cap') (sbc_capabilities_t.channel_mode cap')
           \<in> {29, 31, 51, 53} \<and>
         (min_bitpool cap \<le> default_bitpool k (frequency cap') (sbc_capabilities_t.channel_mode cap')
          \<and> min_bitpool cap \<le> max_bitpool cap \<longrightarrow>
            min_bitpool cap \<le> max_bitpool cap' \<and> max_bitpool cap' \<le> max_bitpool cap)"
proof -
  from assms(1) obtain f cap3 cap4 where
    c3: "init_block_length k cfg (init_channel_mode k cfg channels (cap\<lparr>frequency := f\<rparr>)) = Some cap3"
    and c4: "init_subbands k cfg cap3 = (True, cap4)"
    and c': "cap' = init_bitpool k cfg (init_allocation_method k cfg cap4)"
    by (auto simp add: a2dp_init_caps_def Let_def split: option.splits if_splits prod.splits bool.splits)
  have m4: "min_bitpool cap4 = min_bitpool cap" "max_bitpool cap4 = max_bitpool cap"
    using init_steps_bitpool(3,4) [OF c3] init_steps_bitpool(5,6) [of k cfg cap3] c4
    by (simp_all add: init_steps_bitpool(1,2))
  have mx: "max_bitpool cap' =
           MIN_u8 (default_bitpool k (frequency cap') (sbc_capabilities_t.channel_mode cap'))
                  (max_bitpool cap)"
    and mn: "min_bitpool cap' = MAX_u8 MIN_BITPOOL (min_bitpool cap)"
    using assms(2) m4 unfolding c' by (simp_all add: init_bitpool_fields init_steps_bitpool)
  have r: "r \<in> {16000, 32000, 44100, 48000}"
    using assms(1) a2dp_init_rate [of k cfg cap r channels] by simp
  show ?thesis
    using default_bitpool_values [of k "frequency cap'" "sbc_capabilities_t.channel_mode cap'"] r
    unfolding mx mn by (auto simp add: MIN_u8_def MAX_u8_def)
qed

lemmas init_eval =
  a2dp_init_caps_def init_channel_mode_def init_block_length_def init_subbands_def
  init_allocation_method_def init_bitpool_def bluetooth_convert_rate_to_a2dp_def
  default_bitpool_def MIN_u8_def MAX_u8_def MIN_BITPOOL_def bluez_ipc_def session0_def Let_def

theorem a2dp_init_bitpool_bounds_witness:
  "\<not> has_bitpool (alsa_config session0) \<and>
   a2dp_init_caps bluez_ipc (alsa_config session0) (sbc_capabilities (a2dp session0)) 44100 2 =
     (0, sbc_capabilities (a2dp configured0)) \<and>
   max_bitpool (sbc_capabilities (a2dp configured0)) = 53 \<and>
   max_bitpool (sbc_capabilities (a2dp configured0)) \<le> max_bitpool (sbc_capabilities (a2dp session0))"
proof -
  have h: "\<not> has_bitpool (alsa_config session0)"
    by (simp add: session0_def)
  have i: "a2dp_init_caps bluez_ipc (alsa_config session0) (sbc_capabilities (a2dp session0)) 44100 2 =
     (0, sbc_capabilities (a2dp configured0))"
    by (simp add: init_eval configured0_def)
  have m: "max_bitpool (sbc_capabilities (a2dp configured0)) = 53"
    by (simp add: configured0_def)
  from a2dp_init_bitpool_bounds [OF i h]
  have b: "max_bitpool (sbc_capabilities (a2dp configured0)) \<le>
           max_bitpool (sbc_capabilities (a2dp session0))"
    by blast
  show ?thesis
    using h i m b by simp
qed

text \<open>
  C2 as stated fails: for a remote device that advertises the bitpool range 60 to 64,
  at 44.1 kHz with two channels and no override, the table gives 53 and
  \<^verbatim>\<open>bluetooth_a2dp_init\<close> stores \<^verbatim>\<open>max_bitpool = 53\<close>, below the advertised minimum.
\<close>

theorem default_bitpool_below_advertised_minimum:
  "fst (a2dp_init_caps bluez_ipc (alsa_config session0) caps_high_bitpool 44100 2) = 0 \<and>
   max_bitpool (snd (a2dp_init_caps bluez_ipc (alsa_config session0) caps_high_bitpool 44100 2)) = 53 \<and>
   min_bitpool (snd (a2dp_init_caps bluez_ipc (alsa_config session0) caps_high_bitpool 44100 2)) = 60 \<and>
   min_bitpool caps_high_bitpool = 60 \<and> max_bitpool caps_high_bitpool = 64"
  by (simp add: init_eval caps_high_bitpool_def)

subsection \<open>Resizing the buffers\<close>

lemma a2dp_configure_enomem:
  assumes "\<not> cfg_send e < 0" "\<not> cfg_rsp e < 0"
      "\<not> (realloc_buffer_ok e \<and> realloc_a2dp_buffer_ok e)"
  shows "fst (a2dp_configure k e d) = - ENOMEM \<and>
         bluetooth_data.buffer (snd (a2dp_configure k e d)) = None \<and>
         bluetooth_a2dp.buffer (a2dp (snd (a2dp_configure k e d))) = None"
  using assms
  by (cases "realloc_buffer_ok e"; cases "realloc_a2dp_buffer_ok e")
     (simp_all add: a2dp_configure_def audioservice_send_def resize_buffers_def realloc_def Let_def)

lemma hsp_hw_params_enomem:
  assumes "\<not> open_send e < 0" "\<not> open_rsp e < 0" "\<not> cfg_send e < 0" "\<not> cfg_rsp e < 0"
      "\<not> (realloc_buffer_ok e \<and> realloc_a2dp_buffer_ok e)"
  shows "fst (bluetooth_hsp_hw_params k e d) = - ENOMEM \<and>
         bluetooth_data.buffer (snd (bluetooth_hsp_hw_params k e d)) = None \<and>
         bluetooth_a2dp.buffer (a2dp (snd (bluetooth_hsp_hw_params k e d))) = None"
  using assms
  by (cases "realloc_buffer_ok e"; cases "realloc_a2dp_buffer_ok e")
     (simp_all add: bluetooth_hsp_hw_params_def audioservice_send_def resize_buffers_def
        realloc_def Let_def)

text \<open>
  C8.  Let one of the two \<^verbatim>\<open>realloc\<close> calls fail.  Whenever a configuration
  operation gets as far as resizing (for \<^verbatim>\<open>bluetooth_hsp_hw_params\<close>: the OPEN and
  SET_CONFIGURATION exchanges succeed; for \<^verbatim>\<open>bluetooth_a2dp_hw_params\<close>: either the
  stream is open and the parameters differ, or the stream is Closed and OPEN and
  \<^verbatim>\<open>bluetooth_a2dp_init\<close> succeed; and the SET_CONFIGURATION exchange succeeds), it
  returns \<^verbatim>\<open>-ENOMEM\<close> and both the wire buffer and the codec buffer are null.
\<close>

theorem hw_params_resize_failure:
  assumes "\<not> (realloc_buffer_ok e \<and> realloc_a2dp_buffer_ok e)"
  shows
   "(\<not> open_send e < 0 \<and> \<not> open_rsp e < 0 \<and> \<not> cfg_send e < 0 \<and> \<not> cfg_rsp e < 0 \<longrightarrow>
       fst (bluetooth_hsp_hw_params k e d) = - ENOMEM \<and>
       bluetooth_data.buffer (snd (bluetooth_hsp_hw_params k e d)) = None \<and>
       bluetooth_a2dp.buffer (a2dp (snd (bluetooth_hsp_hw_params k e d))) = None) \<and>
    (a2dp_stream_state d \<noteq> STREAM_CLOSED \<and> bluetooth_configuration_cmp k d r \<noteq> 0 \<and>
     \<not> cfg_send e < 0 \<and> \<not> cfg_rsp e < 0 \<longrightarrow>
       fst (bluetooth_a2dp_hw_params k e d r channels) = - ENOMEM \<and>
       bluetooth_data.buffer (snd (bluetooth_a2dp_hw_params k e d r channels)) = None \<and>
       bluetooth_a2dp.buffer (a2dp (snd (bluetooth_a2dp_hw_params k e d r channels))) = None) \<and>
    (a2dp_stream_state d = STREAM_CLOSED \<and> \<not> open_send e < 0 \<and> \<not> open_rsp e < 0 \<and>
     \<not> fst (a2dp_init_caps k (alsa_config d) (sbc_capabilities (a2dp d)) r channels) < 0 \<and>
     \<not> cfg_send e < 0 \<and> \<not> cfg_rsp e < 0 \<longrightarrow>
       fst (bluetooth_a2dp_hw_params k e d r channels) = - ENOMEM \<and>
       bluetooth_data.buffer (snd (bluetooth_a2dp_hw_params k e d r channels)) = None \<and>
       bluetooth_a2dp.buffer (a2dp (snd (bluetooth_a2dp_hw_params k e d r channels))) = None)"
proof (intro conjI impI)
  assume h: "\<not> open_send e < 0 \<and> \<not> open_rsp e < 0 \<and> \<not> cfg_send e < 0 \<and> \<not> cfg_rsp e < 0"
  show "fst (bluetooth_hsp_hw_params k e d) = - ENOMEM"
    "bluetooth_data.buffer (snd (bluetooth_hsp_hw_params k e d)) = None"
    "bluetooth_a2dp.buffer (a2dp (snd (bluetooth_hsp_hw_params k e d))) = None"
    using hsp_hw_params_enomem [of e k d] h assms by simp_all
next
  assume h: "a2dp_stream_state d \<noteq> STREAM_CLOSED \<and> bluetooth_configuration_cmp k d r \<noteq> 0 \<and>
     \<not> cfg_send e < 0 \<and> \<not> cfg_rsp e < 0"
  then have eq: "bluetooth_a2dp_hw_params k e d r channels = a2dp_configure k e d"
    by (simp add: bluetooth_a2dp_hw_params_def)
  show "fst (bluetooth_a2dp_hw_params k e d r channels) = - ENOMEM"
    "bluetooth_data.buffer (snd (bluetooth_a2dp_hw_params k e d r channels)) = None"
    "bluetooth_a2dp.buffer (a2dp (snd (bluetooth_a2dp_hw_params k e d r channels))) = None"
    unfolding eq using a2dp_configure_enomem [of e k d] h assms by simp_all
next
  assume h: "a2dp_stream_state d = STREAM_CLOSED \<and> \<not> open_send e < 0 \<and> \<not> open_rsp e < 0 \<and>
     \<not> fst (a2dp_init_caps k (alsa_config d) (sbc_capabilities (a2dp d)) r channels) < 0 \<and>
     \<not> cfg_send e < 0 \<and> \<not> cfg_rsp e < 0"
  obtain err cap where ic:
    "a2dp_init_caps k (alsa_config d) (sbc_capabilities (a2dp d)) r channels = (err, cap)"
    by (cases "a2dp_init_caps k (alsa_config d) (sbc_capabilities (a2dp d)) r channels")
  have eq: "bluetooth_a2dp_hw_params k e d r channels =
      a2dp_configure k e (d\<lparr>server_sent := server_sent d @ [BT_OPEN],
                          a2dp_stream_state := STREAM_OPENED,
                          a2dp := (a2dp d)\<lparr>sbc_capabilities := cap\<rparr>\<rparr>)"
    using h ic
    by (simp add: bluetooth_a2dp_hw_params_def stream_open_def audioservice_send_def
        bluetooth_a2dp_init_def Let_def)
  show "fst (bluetooth_a2dp_hw_params k e d r channels) = - ENOMEM"
    "bluetooth_data.buffer (snd (bluetooth_a2dp_hw_params k e d r channels)) = None"
    "bluetooth_a2dp.buffer (a2dp (snd (bluetooth_a2dp_hw_params k e d r channels))) = None"
    unfolding eq
    using a2dp_configure_enomem [of e k "d\<lparr>server_sent := server_sent d @ [BT_OPEN],
                          a2dp_stream_state := STREAM_OPENED,
                          a2dp := (a2dp d)\<lparr>sbc_capabilities := cap\<rparr>\<rparr>"] h assms by simp_all
qed

theorem hw_params_resize_failure_witness:
  "\<not> (realloc_buffer_ok hw_env_nomem \<and> realloc_a2dp_buffer_ok hw_env_nomem) \<and>
   fst (bluetooth_hsp_hw_params bluez_ipc hw_env_nomem session0) = - ENOMEM \<and>
   bluetooth_data.buffer (snd (bluetooth_hsp_hw_params bluez_ipc hw_env_nomem session0)) = None \<and>
   bluetooth_a2dp.buffer (a2dp (snd (bluetooth_hsp_hw_params bluez_ipc hw_env_nomem session0))) = None \<and>
   a2dp_stream_state session0 = STREAM_CLOSED \<and>
   fst (bluetooth_a2dp_hw_params bluez_ipc hw_env_nomem session0 44100 2) = - ENOMEM \<and>
   bluetooth_data.buffer (snd (bluetooth_a2dp_hw_params bluez_ipc hw_env_nomem session0 44100 2)) = None \<and>
   bluetooth_a2dp.buffer (a2dp (snd (bluetooth_a2dp_hw_params bluez_ipc hw_env_nomem session0 44100 2))) = None"
proof -
  have h: "\<not> (realloc_buffer_ok hw_env_nomem \<and> realloc_a2dp_buffer_ok hw_env_nomem)"
    by (simp add: hw_env_nomem_def hw_env_mtu48_def)
  have e: "\<not> open_send hw_env_nomem < 0 \<and> \<not> open_rsp hw_env_nomem < 0 \<and>
           \<not> cfg_send hw_env_nomem < 0 \<and> \<not> cfg_rsp hw_env_nomem < 0"
    by (simp add: hw_env_nomem_def hw_env_mtu48_def)
  have c: "a2dp_stream_state session0 = STREAM_CLOSED"
    by (simp add: session0_def)
  have i: "\<not> fst (a2dp_init_caps bluez_ipc (alsa_config session0)
                    (sbc_capabilities (a2dp session0)) 44100 2) < 0"
    by (simp add: init_eval)
  show ?thesis
    using h e c i hw_params_resize_failure [OF h, of bluez_ipc session0 44100 2] by blast
qed

subsection \<open>Prepare\<close>





subsection \<open>The transmit routine\<close>

text \<open>
  C9.  Whenever \<^verbatim>\<open>avdtp_write\<close> returns, whatever the outcome of the \<^verbatim>\<open>poll\<close> and
  the \<^verbatim>\<open>send\<close>, the sequence number has been incremented (a 16-bit field, so it
  wraps), the wire-buffer fill is the header size, the frame count and the per-packet
  sample count are zero, and the running sample count is untouched.  When the socket
  is not writable nothing is handed to \<^verbatim>\<open>send\<close> and the return value is 0 (or
  \<^verbatim>\<open>-errno\<close> when \<^verbatim>\<open>poll\<close> failed); when the \<^verbatim>\<open>send\<close> fails the return value is
  \<^verbatim>\<open>-errno\<close>: in both cases the sequence number is consumed.  The routine returns
  whenever the wire buffer is allocated with room for the header and for the fill.
\<close>

theorem avdtp_write_always_resets:
  "(avdtp_write w txo d = Inr (ret, d') \<longrightarrow>
      seq_num (a2dp d') = seq_num (a2dp d) + 1 \<and>
      bluetooth_a2dp.count (a2dp d') = sizeof_rtp_header + sizeof_rtp_payload \<and>
      frame_count (a2dp d') = 0 \<and> samples (a2dp d') = 0 \<and>
      nsamples (a2dp d') = nsamples (a2dp d) \<and>
      tx_attempts d' = tx_attempts d + 1 \<and>
      (\<not> pollout (txo (tx_attempts d)) \<longrightarrow>
         wire d' = wire d \<and>
         ret = (if retpoll (txo (tx_attempts d)) < 0 then - tx_errno (txo (tx_attempts d)) else 0)) \<and>
      (pollout (txo (tx_attempts d)) \<and> send_ret (txo (tx_attempts d)) < 0 \<longrightarrow>
         ret = - tx_errno (txo (tx_attempts d)))) \<and>
   (\<forall>buf. bluetooth_a2dp.buffer (a2dp d) = Some buf \<and>
          sizeof_rtp_header + sizeof_rtp_payload \<le> length buf \<and>
          bluetooth_a2dp.count (a2dp d) \<le> length buf \<longrightarrow>
          (\<exists>r d1. avdtp_write w txo d = Inr (r, d1)))"
proof -
  have l: "length (rtp_fill w (a2dp d)) = 13"
    by (simp add: rtp_fill_def htons_def htonl_def)
  show ?thesis
    using l
    by (auto simp add: avdtp_write_def avdtp_reset_def Let_def sizeof_rtp_header_def
        sizeof_rtp_payload_def split: option.splits if_splits)
qed

lemmas a2dp_eval =
  bluetooth_a2dp_write_def a2dp_leftover_def a2dp_chunks.simps a2dp_out_def a2dp_done_def
  encode_block_def avdtp_write_def avdtp_reset_def autostart_def snd_pcm_start_def
  bluetooth_playback_start_def bluetooth_playback_stop_def memcpy_to_def mem_bytes_def
  u32_def usub32_def s32_def sizeof_rtp_header_def sizeof_rtp_payload_def
  rtp_fill_def htons_def htonl_def rtp_parse_def ntohs_def ntohl_def Let_def
  enc_frame7_def tx_ready_def tx_full_def no_start_def silence_def a2dp_session_def session0_def
  areas_offset_def

theorem avdtp_write_always_resets_witness:
  "\<not> pollout (tx_full (tx_attempts mid_packet)) \<and>
   (\<exists>d'. avdtp_write 4 tx_full mid_packet = Inr (0, d') \<and>
      seq_num (a2dp d') = 0x1235 \<and> bluetooth_a2dp.count (a2dp d') = 13 \<and>
      frame_count (a2dp d') = 0 \<and> samples (a2dp d') = 0 \<and> wire d' = wire mid_packet)"
proof -
  have p: "\<not> pollout (tx_full (tx_attempts mid_packet))"
    "retpoll (tx_full (tx_attempts mid_packet)) = 0"
    by (simp_all add: tx_full_def)
  have b: "bluetooth_a2dp.buffer (a2dp mid_packet) = Some (replicate 48 0) \<and>
           sizeof_rtp_header + sizeof_rtp_payload \<le> length (replicate 48 (0 :: byte)) \<and>
           bluetooth_a2dp.count (a2dp mid_packet) \<le> length (replicate 48 (0 :: byte))"
    by (simp add: mid_packet_def a2dp_session_def sizeof_rtp_header_def sizeof_rtp_payload_def)
  have s: "seq_num (a2dp mid_packet) = 0x1234"
    by (simp add: mid_packet_def)
  from avdtp_write_always_resets [of 4 tx_full mid_packet] b
  obtain r d1 where run: "avdtp_write 4 tx_full mid_packet = Inr (r, d1)"
    by blast
  from avdtp_write_always_resets [of 4 tx_full mid_packet r d1] run p
  have "r = 0 \<and> seq_num (a2dp d1) = seq_num (a2dp mid_packet) + 1 \<and>
        bluetooth_a2dp.count (a2dp d1) = sizeof_rtp_header + sizeof_rtp_payload \<and>
        frame_count (a2dp d1) = 0 \<and> samples (a2dp d1) = 0 \<and> wire d1 = wire mid_packet"
    by simp
  then show ?thesis
    using p(1) run s by (simp add: sizeof_rtp_header_def sizeof_rtp_payload_def)
qed

subsection \<open>Packet header round trip\<close>

lemma ntohs_htons: "ntohs (htons x) = x"
  unfolding ntohs_def htons_def
  by (rule bit_word_eqI) (auto simp add: bit_simps)

lemma ntohl_htonl: "ntohl (htonl x) = x"
  unfolding ntohl_def htonl_def
proof (rule bit_word_eqI)
  fix n assume n: "n < LENGTH(32)"
  consider "n < 8" | "8 \<le> n" "n < 16" | "16 \<le> n" "n < 24" | "24 \<le> n" "n < 32"
    using n by fastforce
  then show "bit (push_bit 24 (ucast ([ucast (drop_bit 24 x), ucast (drop_bit 16 x),
                    ucast (drop_bit 8 x), ucast x :: byte] ! 0)) OR
        push_bit 16 (ucast ([ucast (drop_bit 24 x), ucast (drop_bit 16 x),
                    ucast (drop_bit 8 x), ucast x :: byte] ! 1)) OR
        push_bit 8 (ucast ([ucast (drop_bit 24 x), ucast (drop_bit 16 x),
                    ucast (drop_bit 8 x), ucast x :: byte] ! 2)) OR
        ucast ([ucast (drop_bit 24 x), ucast (drop_bit 16 x),
                    ucast (drop_bit 8 x), ucast x :: byte] ! 3) :: 32 word) n = bit x n"
    by cases (auto simp add: bit_simps)
qed

lemma rtp_parse_fill:
  "rtp_parse w (rtp_fill w a @ rest) =
     Some (seq_num a, word_of_int (nsamples a), take_bit w (word_of_int (frame_count a)))"
proof -
  have l: "length (rtp_fill w a) = 13"
    by (simp add: rtp_fill_def htons_def htonl_def)
  have s: "take 2 (drop 2 (rtp_fill w a @ rest)) = htons (seq_num a)"
    by (simp add: rtp_fill_def htons_def htonl_def)
  have t: "take 4 (drop 4 (rtp_fill w a @ rest)) = htonl (word_of_int (nsamples a))"
    by (simp add: rtp_fill_def htons_def htonl_def)
  have f: "(rtp_fill w a @ rest) ! 12 = take_bit w (word_of_int (frame_count a))"
    by (simp add: rtp_fill_def htons_def htonl_def)
  show ?thesis
    unfolding rtp_parse_def s t f
    by (simp add: l sizeof_rtp_header_def sizeof_rtp_payload_def ntohs_htons ntohl_htonl)
qed

lemma uint_frame_count_field:
  "uint (take_bit w (word_of_int fc :: byte)) = fc mod 2 ^ min w 8"
  by (simp add: unsigned_take_bit_eq uint_word_of_int_eq min.commute flip: take_bit_eq_mod)

lemma uint_timestamp_field: "uint (word_of_int n :: u32) = n mod 2 ^ 32"
  by (simp add: uint_word_of_int_eq take_bit_eq_mod)

text \<open>
  C6, as amended.  Whenever \<^verbatim>\<open>avdtp_write\<close> returns, the header it has written at
  the start of the wire buffer reads back as: the sequence number of the Session (the
  16-bit counter, so the count of packets modulo 65536), the running sample count
  modulo \<open>2^32\<close>, and the frame count modulo \<open>2^w\<close>, where \<open>w\<close> is the width of the
  frame-count field of the sub-header (capped at the eight bits of the byte).  Hence
  the frame count itself is read back when it is below \<open>2^w\<close>.  When the socket is
  writable and the fill covers the header, the packet handed to \<^verbatim>\<open>send\<close> reads back
  the same way.
\<close>

theorem rtp_header_roundtrip:
  assumes "avdtp_write w txo d = Inr (ret, d')"
  shows "\<exists>buf sq ts fc.
     bluetooth_a2dp.buffer (a2dp d') = Some buf \<and> rtp_parse w buf = Some (sq, ts, fc) \<and>
     sq = seq_num (a2dp d) \<and>
     uint ts = nsamples (a2dp d) mod 2 ^ 32 \<and>
     uint fc = frame_count (a2dp d) mod 2 ^ min w 8 \<and>
     (0 \<le> frame_count (a2dp d) \<and> frame_count (a2dp d) < 2 ^ min w 8 \<longrightarrow>
        uint fc = frame_count (a2dp d)) \<and>
     (pollout (txo (tx_attempts d)) \<and>
      sizeof_rtp_header + sizeof_rtp_payload \<le> bluetooth_a2dp.count (a2dp d) \<longrightarrow>
        wire d' = wire d @ [take (bluetooth_a2dp.count (a2dp d)) buf] \<and>
        rtp_parse w (take (bluetooth_a2dp.count (a2dp d)) buf) = Some (sq, ts, fc))"
proof -
  from assms obtain b where b: "bluetooth_a2dp.buffer (a2dp d) = Some b"
    and lb: "\<not> length b < sizeof_rtp_header + sizeof_rtp_payload"
    by (auto simp add: avdtp_write_def split: option.splits if_splits)
  let ?buf = "rtp_fill w (a2dp d) @ drop (sizeof_rtp_header + sizeof_rtp_payload) b"
  have buf': "bluetooth_a2dp.buffer (a2dp d') = Some ?buf"
    using assms b lb
    by (auto simp add: avdtp_write_def avdtp_reset_def Let_def split: if_splits)
  have p: "rtp_parse w ?buf =
     Some (seq_num (a2dp d), word_of_int (nsamples (a2dp d)),
           take_bit w (word_of_int (frame_count (a2dp d))))"
    by (rule rtp_parse_fill)
  have l: "length (rtp_fill w (a2dp d)) = 13"
    by (simp add: rtp_fill_def htons_def htonl_def)
  have pk: "rtp_parse w (take (bluetooth_a2dp.count (a2dp d)) ?buf) = rtp_parse w ?buf"
    if "sizeof_rtp_header + sizeof_rtp_payload \<le> bluetooth_a2dp.count (a2dp d)"
      and "\<not> length ?buf < bluetooth_a2dp.count (a2dp d)"
  proof -
    have "take (bluetooth_a2dp.count (a2dp d)) ?buf =
          rtp_fill w (a2dp d) @ take (bluetooth_a2dp.count (a2dp d) - 13)
             (drop (sizeof_rtp_header + sizeof_rtp_payload) b)"
      using that l by (simp add: sizeof_rtp_header_def sizeof_rtp_payload_def)
    then show ?thesis by (simp only: rtp_parse_fill)
  qed
  have w: "wire d' = wire d @ [take (bluetooth_a2dp.count (a2dp d)) ?buf] \<and>
           \<not> length ?buf < bluetooth_a2dp.count (a2dp d)"
    if "pollout (txo (tx_attempts d))"
    using assms b lb that
    by (auto simp add: avdtp_write_def avdtp_reset_def Let_def split: if_splits)
  show ?thesis
    using buf' p pk w
    by (auto simp add: uint_frame_count_field uint_timestamp_field)
qed

theorem rtp_header_roundtrip_witness:
  "\<exists>ret d' buf sq ts fc.
     avdtp_write 4 tx_ready mid_packet = Inr (ret, d') \<and>
     bluetooth_a2dp.buffer (a2dp d') = Some buf \<and> rtp_parse 4 buf = Some (sq, ts, fc) \<and>
     sq = 0x1234 \<and> uint ts = 4128 \<and> uint fc = 4"
proof -
  have "\<exists>ret d'. avdtp_write 4 tx_ready mid_packet = Inr (ret, d')"
    by (simp add: avdtp_write_def mid_packet_def a2dp_session_def session0_def tx_ready_def
        sizeof_rtp_header_def sizeof_rtp_payload_def rtp_fill_def htons_def htonl_def Let_def)
  then obtain ret d' where run: "avdtp_write 4 tx_ready mid_packet = Inr (ret, d')"
    by blast
  have v: "seq_num (a2dp mid_packet) = 0x1234" "nsamples (a2dp mid_packet) = 4128"
    "frame_count (a2dp mid_packet) = 4"
    by (simp_all add: mid_packet_def)
  from rtp_header_roundtrip [OF run] obtain buf sq ts fc where
    "bluetooth_a2dp.buffer (a2dp d') = Some buf" "rtp_parse 4 buf = Some (sq, ts, fc)"
    "sq = seq_num (a2dp mid_packet)" "uint ts = nsamples (a2dp mid_packet) mod 2 ^ 32"
    "uint fc = frame_count (a2dp mid_packet) mod 2 ^ min 4 8"
    by blast
  then show ?thesis
    using run v by simp
qed

text \<open>
  C6 as stated fails for the frame count.  With the four-bit field of BlueZ's
  \<^verbatim>\<open>rtp.h\<close>, a link MTU of 128 and frames of seven bytes, one transfer call of 128
  stereo frames (sixteen codec blocks of 32 bytes) makes the transmit path send one
  packet of \<open>13 + 16 * 7 = 125\<close> bytes that holds sixteen codec frames; its header reads
  back sequence number 0, timestamp 128 and frame count 0.
\<close>

theorem frame_count_field_counterexample:
  "map length (sent_packets (bluetooth_a2dp_write enc_frame7 4 tx_ready no_start
       (a2dp_session 128 32) silence 32 0 0 128)) = [13 + 16 * 7] \<and>
   map (rtp_parse 4) (sent_packets (bluetooth_a2dp_write enc_frame7 4 tx_ready no_start
       (a2dp_session 128 32) silence 32 0 0 128)) = [Some (0, 128, 0)]"
  by (simp add: a2dp_eval sent_packets_def)

subsection \<open>Underrun\<close>

lemma a2dp_write_underrun:
  "appl_ptr (io d) < snd_pcm_ioplug.hw_ptr (io d) \<Longrightarrow>
   bluetooth_a2dp_write enc w txo se d mem step first offset sz =
     Some (Inr (- EPIPE, d\<lparr>stopped := 1, reset := 1\<rparr>))"
  by (simp add: bluetooth_a2dp_write_def bluetooth_playback_stop_def Let_def)

lemma hsp_write_underrun:
  "appl_ptr (io d) < snd_pcm_ioplug.hw_ptr (io d) \<Longrightarrow>
   bluetooth_hsp_write rsend errno d mem step first offset sz = Inr (- EPIPE, d\<lparr>stopped := 1\<rparr>)"
  by (simp add: bluetooth_hsp_write_def bluetooth_playback_stop_def Let_def)

text \<open>
  C4.  On a Session entered with the application pointer behind the hardware pointer
  and the reset flag clear, \<^verbatim>\<open>bluetooth_a2dp_write\<close> sets the stopped flag, returns
  \<^verbatim>\<open>-EPIPE\<close> and sets the reset flag, while \<^verbatim>\<open>bluetooth_hsp_write\<close> sets the stopped
  flag and returns \<^verbatim>\<open>-EPIPE\<close> but leaves the reset flag clear: the Session is not
  flagged for a clock reset on the low-latency path.
\<close>

theorem hsp_write_underrun_keeps_reset:
  "appl_ptr (io underrun_session) < snd_pcm_ioplug.hw_ptr (io underrun_session) \<and>
   reset underrun_session = 0 \<and>
   bluetooth_a2dp_write enc_frame7 4 tx_ready no_start underrun_session silence 32 0 0 1 =
     Some (Inr (- EPIPE, underrun_session\<lparr>stopped := 1, reset := 1\<rparr>)) \<and>
   bluetooth_hsp_write 1 0 underrun_session silence 16 0 0 1 =
     Inr (- EPIPE, underrun_session\<lparr>stopped := 1\<rparr>) \<and>
   reset (underrun_session\<lparr>stopped := 1\<rparr>) = 0"
  by (simp add: bluetooth_a2dp_write_def bluetooth_hsp_write_def bluetooth_playback_stop_def
      underrun_session_def a2dp_session_def session0_def Let_def)

subsection \<open>Clock simulator\<close>




subsection \<open>Transfer-unit packing\<close>


















text \<open>
  A successful \<^verbatim>\<open>bluetooth_a2dp_hw_params\<close> from the label \<^verbatim>\<open>configure\<close> leaves both
  buffers with \<^verbatim>\<open>link_mtu\<close> bytes and the wire-buffer fill at the header size; the
  Session is then ready for transfer when the link MTU holds the header and a codec
  block and the carried byte count is below the block size.
\<close>

lemma a2dp_configure_session_ok:
  assumes "a2dp_configure k e d = (0, d')"
    and "\<not> cfg_send e < 0" "\<not> cfg_rsp e < 0" "\<not> delay_rsp e < 0"
    and "sizeof_rtp_header + sizeof_rtp_payload \<le> unat (rsp_link_mtu e)"
    and "0 < sbc_get_codesize e" "sbc_get_codesize e \<le> unat (rsp_link_mtu e)"
    and "bluetooth_data.count d < sbc_get_codesize e"
    and "\<forall>p \<in> set (wire d). length p \<le> unat (rsp_link_mtu e)"
  shows "session_ok d' \<and> link_mtu d' = unat (rsp_link_mtu e) \<and>
         codesize (a2dp d') = sbc_get_codesize e"
proof -
  have lt: "unat (rsp_link_mtu e) < 2 ^ 32"
    using unsigned_less [of "rsp_link_mtu e", where 'a = nat] by simp
  have ok: "realloc_buffer_ok e \<and> realloc_a2dp_buffer_ok e"
  proof (rule ccontr)
    assume "\<not> (realloc_buffer_ok e \<and> realloc_a2dp_buffer_ok e)"
    from a2dp_configure_enomem [OF assms(2,3) this, of k d] assms(1)
    show False by (simp add: ENOMEM_def)
  qed
  show ?thesis
    using assms lt ok
    by (auto simp add: a2dp_configure_def audioservice_send_def resize_buffers_def realloc_def
        bluetooth_a2dp_setup_def session_ok_def Let_def split: option.splits)
qed






end
